theory Spec2Isabelle
  imports Main "HOL-Library.Sublist"
begin

section \<open>Go library functions used by the file server\<close>

text \<open>
  The server is a single Go file, \<^verbatim>\<open>main.go\<close>. Its functions \<^verbatim>\<open>serve\<close>,
  \<^verbatim>\<open>resolvePath\<close> and \<^verbatim>\<open>listFiles\<close> are embedded below. They call a handful of
  functions of Go's standard library (\<^verbatim>\<open>strings\<close>, \<^verbatim>\<open>path/filepath\<close>, \<^verbatim>\<open>fmt\<close>,
  \<^verbatim>\<open>os\<close>, \<^verbatim>\<open>net/http\<close>); this section gives those their documented behaviour on
  a Unix system (separator \<^verbatim>\<open>/\<close>, no volume names). A Go \<^verbatim>\<open>string\<close> is a byte
  sequence, here a \<^typ>\<open>string\<close>.
\<close>

subsection \<open>Package strings\<close>

text \<open>\<^verbatim>\<open>strings.Trim(s, cutset)\<close>: \<^verbatim>\<open>s\<close> with all leading and trailing bytes contained
  in \<^verbatim>\<open>cutset\<close> removed.\<close>

definition Trim :: "string \<Rightarrow> string \<Rightarrow> string" where
  "Trim s cutset =
     rev (dropWhile (\<lambda>c. c \<in> set cutset) (rev (dropWhile (\<lambda>c. c \<in> set cutset) s)))"

text \<open>\<^verbatim>\<open>strings.Join(elems, sep)\<close>.\<close>

fun strings_Join :: "string list \<Rightarrow> string \<Rightarrow> string" where
  "strings_Join [] sep = []"
| "strings_Join [e] sep = e"
| "strings_Join (e # es) sep = e @ sep @ strings_Join es sep"

subsection \<open>Package path/filepath\<close>

text \<open>The elements of a path: the byte sequences between its separators
  (\<^verbatim>\<open>strings.Split(path, "/")\<close>).\<close>

fun elements :: "string \<Rightarrow> string list" where
  "elements [] = [[]]"
| "elements (c # cs) =
     (if c = CHR ''/'' then [] # elements cs
      else (case elements cs of [] \<Rightarrow> [[c]] | e # es \<Rightarrow> (c # e) # es))"

definition IsAbs :: "string \<Rightarrow> bool" where
  "IsAbs path = (case path of [] \<Rightarrow> False | c # _ \<Rightarrow> c = CHR ''/'')"

text \<open>
  \<^verbatim>\<open>filepath.Clean\<close> reads the path element by element and keeps the elements of the
  result in a buffer, here the list \<open>out\<close> with the last element first:
  \<^item> an empty element (two separators in a row) and a \<^verbatim>\<open>.\<close> element are dropped;
  \<^item> a \<^verbatim>\<open>..\<close> element removes the element before it when there is one that is not
    itself a kept \<^verbatim>\<open>..\<close>; otherwise it is dropped in a rooted path and kept in a
    relative one;
  \<^item> any other element is kept.
  The result of a rooted path is \<^verbatim>\<open>/\<close> followed by the kept elements joined with
  \<^verbatim>\<open>/\<close>; the result of a relative path with no element left, and of the empty path,
  is \<^verbatim>\<open>.\<close>.
\<close>

definition clean_elem :: "bool \<Rightarrow> string list \<Rightarrow> string \<Rightarrow> string list" where
  "clean_elem rooted out e =
     (if e = [] \<or> e = ''.'' then out
      else if e = ''..'' then
        (case out of
           [] \<Rightarrow> if rooted then [] else [''..'']
         | d # rest \<Rightarrow>
             if \<not> rooted \<and> d = ''..'' then ''..'' # out else rest)
      else e # out)"

definition Clean :: "string \<Rightarrow> string" where
  "Clean path =
     (if path = [] then ''.''
      else
        let rooted = IsAbs path;
            out = rev (foldl (clean_elem rooted) [] (elements path))
        in if rooted then ''/'' @ strings_Join out ''/''
           else if out = [] then ''.''
           else strings_Join out ''/'')"

text \<open>\<^verbatim>\<open>filepath.Join(elem...)\<close>: leading empty elements are ignored, the rest is joined
  with the separator and cleaned; with no non-empty element the result is empty.\<close>

fun Join :: "string list \<Rightarrow> string" where
  "Join [] = []"
| "Join (e # es) = (if e = [] then Join es else Clean (strings_Join (e # es) ''/''))"

text \<open>\<^verbatim>\<open>filepath.Dir(path)\<close>: everything up to the last separator, cleaned.\<close>

definition Dir :: "string \<Rightarrow> string" where
  "Dir path = Clean (rev (dropWhile (\<lambda>c. c \<noteq> CHR ''/'') (rev path)))"

text \<open>\<^verbatim>\<open>filepath.Base(path)\<close>: the last element, after trailing separators are removed.\<close>

definition Base :: "string \<Rightarrow> string" where
  "Base path =
     (if path = [] then ''.''
      else
        let p = rev (dropWhile (\<lambda>c. c = CHR ''/'') (rev path));
            b = rev (takeWhile (\<lambda>c. c \<noteq> CHR ''/'') (rev p))
        in if b = [] then ''/'' else b)"

text \<open>\<^verbatim>\<open>filepath.Ext(path)\<close>: the suffix from the last dot of the last element, empty when
  that element has no dot.\<close>

definition Ext :: "string \<Rightarrow> string" where
  "Ext path =
     (let l = rev (takeWhile (\<lambda>c. c \<noteq> CHR ''/'') (rev path))
      in if CHR ''.'' \<in> set l then CHR ''.'' # rev (takeWhile (\<lambda>c. c \<noteq> CHR ''.'') (rev l))
         else [])"

subsection \<open>Package fmt\<close>

text \<open>
  \<^verbatim>\<open>fmt.Sprintf\<close> for the one verb the program uses, \<^verbatim>\<open>%s\<close>, with string operands: each
  \<^verbatim>\<open>%s\<close> is replaced by the next operand (by \<^verbatim>\<open>%!s(MISSING)\<close> when the operands have
  run out) and every other byte is copied. Operands are not read as formats. The
  formats of the program hold no other verb, and every call passes as many operands
  as its format has verbs.
\<close>

fun Sprintf :: "string \<Rightarrow> string list \<Rightarrow> string" where
  "Sprintf [] a = []"
| "Sprintf [c] a = [c]"
| "Sprintf (c # d # fmt) a =
     (if c = CHR ''%'' \<and> d = CHR ''s'' then
        (case a of
           [] \<Rightarrow> ''%!s(MISSING)'' @ Sprintf fmt []
         | x # xs \<Rightarrow> x @ Sprintf fmt xs)
      else c # Sprintf (d # fmt) a)"

subsection \<open>Package os and the operating system\<close>

text \<open>
  The file system, the working directory, the clock and the client connection are
  outside the program. They are collected in a record of what each call answers; the
  handler reads it and never changes it. A call that fails answers an error number.
\<close>

datatype errno = ENOENT | ENOTDIR | EACCES | EOTHER string

fun strerror :: "errno \<Rightarrow> string" where
  "strerror ENOENT = ''no such file or directory''"
| "strerror ENOTDIR = ''not a directory''"
| "strerror EACCES = ''permission denied''"
| "strerror (EOTHER msg) = msg"

text \<open>Go's \<^verbatim>\<open>*os.PathError\<close> (operation, path, cause) and \<^verbatim>\<open>*os.SyscallError\<close>.\<close>

datatype os_error = PathError string string errno | SyscallError string errno

fun Error :: "os_error \<Rightarrow> string" where
  "Error (PathError op path e) = op @ '' '' @ path @ '': '' @ strerror e"
| "Error (SyscallError call e) = call @ '': '' @ strerror e"

text \<open>\<^verbatim>\<open>os.IsNotExist\<close> unwraps the error and holds for \<^verbatim>\<open>ENOENT\<close> only.\<close>

fun IsNotExist :: "os_error \<Rightarrow> bool" where
  "IsNotExist (PathError op path e) = (e = ENOENT)"
| "IsNotExist (SyscallError call e) = (e = ENOENT)"

text \<open>\<^verbatim>\<open>time.Time\<close> as seconds since the Unix epoch and nanoseconds within the second.\<close>

record Time =
  sec :: int
  nsec :: nat

text \<open>The type bits of \<^verbatim>\<open>os.FileMode\<close>, as \<^verbatim>\<open>os.Stat\<close> reports them: a regular file, a
  directory, or anything else (a pipe, a socket, a device). \<^verbatim>\<open>IsDir\<close> and \<^verbatim>\<open>IsRegular\<close>
  read them.\<close>

datatype FileMode = ModeRegular | ModeDir | ModeOther

record FileInfo =
  Name :: string
  Mode :: FileMode
  ModTime :: Time

definition IsDir :: "FileInfo \<Rightarrow> bool" where
  "IsDir fi = (Mode fi = ModeDir)"

definition IsRegular :: "FileInfo \<Rightarrow> bool" where
  "IsRegular fi = (Mode fi = ModeRegular)"

record system =
  stat :: "string \<Rightarrow> errno + FileInfo"
  readdir :: "string \<Rightarrow> errno + FileInfo list"
  open_file :: "string \<Rightarrow> errno + string"
  close_file :: "string \<Rightarrow> errno option"
  getwd :: "errno + string"
  clock :: string
  conn_write :: "string option"
  mimeTypes :: "string \<Rightarrow> string option"
  sniff :: "string \<Rightarrow> string"

text \<open>
  \<open>readdir\<close> answers what \<^verbatim>\<open>ioutil.ReadDir\<close> returns (the entries of the directory,
  which that function sorts by name); \<open>open_file\<close> answers the content of the file
  opened, which for a regular file can be read and sought at will; \<open>clock\<close> is \<^verbatim>\<open>time.Now()\<close> in the layout \<^verbatim>\<open>2006.01.02 15:04:05 \<close>;
  \<open>conn_write\<close> is the error, if any, of writing a listing to the client connection;
  \<open>mimeTypes\<close> is the installed table of package \<^verbatim>\<open>mime\<close> and \<open>sniff\<close> is
  \<^verbatim>\<open>http.DetectContentType\<close>.
\<close>

definition os_Stat :: "system \<Rightarrow> string \<Rightarrow> os_error + FileInfo" where
  "os_Stat sys name =
     (case stat sys name of Inl e \<Rightarrow> Inl (PathError ''stat'' name e) | Inr fi \<Rightarrow> Inr fi)"

definition ioutil_ReadDir :: "system \<Rightarrow> string \<Rightarrow> os_error + FileInfo list" where
  "ioutil_ReadDir sys dirname =
     (case readdir sys dirname of
        Inl e \<Rightarrow> Inl (PathError ''open'' dirname e)
      | Inr fis \<Rightarrow> Inr fis)"

definition os_Open :: "system \<Rightarrow> string \<Rightarrow> os_error + string" where
  "os_Open sys name =
     (case open_file sys name of Inl e \<Rightarrow> Inl (PathError ''open'' name e) | Inr f \<Rightarrow> Inr f)"

definition os_Close :: "system \<Rightarrow> string \<Rightarrow> os_error option" where
  "os_Close sys name =
     (case close_file sys name of None \<Rightarrow> None | Some e \<Rightarrow> Some (PathError ''close'' name e))"

text \<open>\<^verbatim>\<open>os.Getwd\<close> returns a directory and an error; the directory is empty when the
  error is set.\<close>

definition os_Getwd :: "system \<Rightarrow> string \<times> os_error option" where
  "os_Getwd sys =
     (case getwd sys of
        Inl e \<Rightarrow> ([], Some (SyscallError ''getwd'' e))
      | Inr dir \<Rightarrow> (dir, None))"

text \<open>\<^verbatim>\<open>filepath.Abs\<close>: an absolute path is cleaned, a relative one is joined to the
  working directory; the path returned is empty when the error is set.\<close>

definition Abs :: "system \<Rightarrow> string \<Rightarrow> string \<times> os_error option" where
  "Abs sys path =
     (if IsAbs path then (Clean path, None)
      else
        (case os_Getwd sys of
           (wd, Some err) \<Rightarrow> ([], Some err)
         | (wd, None) \<Rightarrow> (Join [wd, path], None)))"

subsection \<open>Package net/http\<close>

text \<open>
  A request, as far as the handler and the content responder read it: the method, the
  path of the URL and the \<^verbatim>\<open>If-Modified-Since\<close> header as \<^verbatim>\<open>http.ParseTime\<close> reads it
  (seconds since the epoch; \<open>None\<close> when the header is absent or is not a date). Requests
  with other conditional headers or a \<^verbatim>\<open>Range\<close> header are outside this model.
\<close>

record request =
  Method :: string
  URL_Path :: string
  If_Modified_Since :: "int option"

text \<open>What has been sent on an \<^verbatim>\<open>http.ResponseWriter\<close>: whether the header is out, the
  status, the headers the handler set, and the body.\<close>

record response =
  wroteHeader :: bool
  status :: nat
  Content_Type :: "string option"
  Last_Modified :: "int option"
  body :: string

definition new_response :: response where
  "new_response =
     \<lparr>wroteHeader = False, status = 0, Content_Type = None, Last_Modified = None, body = []\<rparr>"

definition WriteHeader :: "nat \<Rightarrow> response \<Rightarrow> response" where
  "WriteHeader code w = (if wroteHeader w then w else w\<lparr>wroteHeader := True, status := code\<rparr>)"

text \<open>The first \<^verbatim>\<open>Write\<close> sends the header with status 200 when none has been sent.\<close>

definition Write :: "string \<Rightarrow> response \<Rightarrow> response" where
  "Write b w = (let w' = WriteHeader 200 w in w'\<lparr>body := body w' @ b\<rparr>)"

text \<open>\<^verbatim>\<open>http.Error(w, error, code)\<close> and \<^verbatim>\<open>http.NotFound(w, r)\<close>.\<close>

definition http_Error :: "response \<Rightarrow> string \<Rightarrow> nat \<Rightarrow> response" where
  "http_Error w msg code =
     Write (msg @ ''\<newline>'')
       (WriteHeader code (w\<lparr>Content_Type := Some ''text/plain; charset=utf-8''\<rparr>))"

definition http_NotFound :: "response \<Rightarrow> response" where
  "http_NotFound w = http_Error w ''404 page not found'' 404"

text \<open>
  \<^verbatim>\<open>http.ServeContent(w, req, name, modtime, content)\<close>, for the requests of the model.
  \<^item> \<^verbatim>\<open>Last-Modified\<close> is set unless the modification time is the zero time (1 January
    of year 1) or the Unix epoch.
  \<^item> \<^verbatim>\<open>If-Modified-Since\<close> is looked at for \<^verbatim>\<open>GET\<close> and \<^verbatim>\<open>HEAD\<close> only, and not when
    the modification time is the zero time or the epoch; the modification time is
    truncated to the second, and when it is not later than the header's the answer is
    304 with no \<^verbatim>\<open>Content-Type\<close> and no body.
  \<^item> Otherwise the answer is 200. A \<^verbatim>\<open>Content-Type\<close> the handler has not set is
    \<^verbatim>\<open>mime.TypeByExtension(filepath.Ext(name))\<close> and, when that is empty, what
    \<^verbatim>\<open>DetectContentType\<close> finds in the first 512 bytes of the content. The body is the
    content unless the method is \<^verbatim>\<open>HEAD\<close>.
  The content is that of a regular file, which can be read and sought; what the
  responder does when a seek fails is not part of the model.
\<close>

definition isZeroTime :: "Time \<Rightarrow> bool" where
  "isZeroTime t = (t = \<lparr>sec = - 62135596800, nsec = 0\<rparr> \<or> t = \<lparr>sec = 0, nsec = 0\<rparr>)"

datatype condResult = condNone | condTrue | condFalse

definition checkIfModifiedSince :: "request \<Rightarrow> Time \<Rightarrow> condResult" where
  "checkIfModifiedSince r modtime =
     (if Method r \<noteq> ''GET'' \<and> Method r \<noteq> ''HEAD'' then condNone
      else
        (case If_Modified_Since r of
           None \<Rightarrow> condNone
         | Some t \<Rightarrow>
             if isZeroTime modtime then condNone
             else if sec modtime \<le> t then condFalse
             else condTrue))"

text \<open>The keys of the table of package \<^verbatim>\<open>mime\<close> all start with a dot, so the empty
  extension has no type.\<close>

definition TypeByExtension :: "system \<Rightarrow> string \<Rightarrow> string" where
  "TypeByExtension sys ext =
     (if ext = [] then []
      else (case mimeTypes sys ext of None \<Rightarrow> [] | Some t \<Rightarrow> t))"

definition setLastModified :: "response \<Rightarrow> Time \<Rightarrow> response" where
  "setLastModified w modtime =
     (if isZeroTime modtime then w else w\<lparr>Last_Modified := Some (sec modtime)\<rparr>)"

definition writeNotModified :: "response \<Rightarrow> response" where
  "writeNotModified w = WriteHeader 304 (w\<lparr>Content_Type := None\<rparr>)"

definition ServeContent ::
  "system \<Rightarrow> response \<Rightarrow> request \<Rightarrow> string \<Rightarrow> Time \<Rightarrow> string \<Rightarrow> response" where
  "ServeContent sys w r name modtime content =
     (let w1 = setLastModified w modtime in
      if checkIfModifiedSince r modtime = condFalse then writeNotModified w1
      else
        let ctype =
              (case Content_Type w1 of
                 Some t \<Rightarrow> t
               | None \<Rightarrow>
                   let t = TypeByExtension sys (Ext name)
                   in if t = [] then sniff sys (take 512 content) else t);
            w2 = WriteHeader 200 (w1\<lparr>Content_Type := Some ctype\<rparr>)
        in if Method r \<noteq> ''HEAD'' then w2\<lparr>body := body w2 @ content\<rparr> else w2)"

section \<open>The file server\<close>

subsection \<open>Configuration and the state a request changes\<close>

text \<open>The globals \<^verbatim>\<open>root\<close> and \<^verbatim>\<open>file\<close> that \<^verbatim>\<open>resolvePath\<close> sets and \<^verbatim>\<open>serve\<close>
  reads. \<^verbatim>\<open>file\<close> is \<^verbatim>\<open>*\<close> when every file under \<^verbatim>\<open>root\<close> may be visited.\<close>

record config =
  root :: string
  "file" :: string

text \<open>What handling one request does: the response sent, the lines written to standard
  error, and the file system calls made, in order.\<close>

datatype syscall = Stat string | ReadDir string | Open string | Close string

record state =
  resp :: response
  stderr :: "string list"
  calls :: "syscall list"

definition start :: state where
  "start = \<lparr>resp = new_response, stderr = [], calls = []\<rparr>"

definition call :: "syscall \<Rightarrow> state \<Rightarrow> state" where
  "call c s = s\<lparr>calls := calls s @ [c]\<rparr>"

subsection \<open>log, internalServerError, listFiles\<close>

definition log :: "system \<Rightarrow> string \<Rightarrow> string list \<Rightarrow> state \<Rightarrow> state" where
  "log sys format a s =
     (let format1 = (if suffix ''\<newline>'' format then format else format @ ''\<newline>'');
          format2 = clock sys @ format1
      in s\<lparr>stderr := stderr s @ [Sprintf format2 a]\<rparr>)"

definition internalServerError :: "state \<Rightarrow> state" where
  "internalServerError s = s\<lparr>resp := http_Error (resp s) ''internal server error.'' 500\<rparr>"

definition NotFound :: "state \<Rightarrow> state" where
  "NotFound s = s\<lparr>resp := http_NotFound (resp s)\<rparr>"

definition html :: string where
  "html =
     ''<!DOCTYPE html>\<newline>'' @
     ''<html lang=\"en\">\<newline>'' @
     ''<head>\<newline>'' @
     ''    <meta charset=\"UTF-8\">\<newline>'' @
     ''    <title>%s</title>\<newline>'' @
     ''</head>\<newline>'' @
     ''<body>\<newline>'' @
     ''<h1>Index of %s</h1>\<newline>'' @
     ''<hr>\<newline>'' @
     ''<p>\<newline>'' @
     ''%s</p>\<newline>'' @
     ''</body>\<newline>'' @
     ''</html>''"

text \<open>The loop of \<^verbatim>\<open>listFiles\<close> appends one formatted line per file to a buffer.\<close>

fun listFiles_loop :: "request \<Rightarrow> string \<Rightarrow> string list \<Rightarrow> string" where
  "listFiles_loop r buf [] = buf"
| "listFiles_loop r buf (f # files) =
     listFiles_loop r
       (buf @ Sprintf ''<a href=\"%s\">%s</a><br>\<newline>'' [Join [URL_Path r, f], f])
       files"

text \<open>\<^verbatim>\<open>listFiles\<close> writes the page and returns the error of the write.\<close>

definition listFiles :: "system \<Rightarrow> request \<Rightarrow> string list \<Rightarrow> state \<Rightarrow> state \<times> string option" where
  "listFiles sys r files s =
     (let buf = listFiles_loop r [] files
      in (s\<lparr>resp := Write (Sprintf html [URL_Path r, URL_Path r, buf]) (resp s)\<rparr>,
          conn_write sys))"

subsection \<open>serve\<close>

text \<open>The end of the directory branch: list the files and log a failed write.\<close>

definition serve_list :: "system \<Rightarrow> request \<Rightarrow> string \<Rightarrow> string list \<Rightarrow> state \<Rightarrow> state" where
  "serve_list sys r query files s =
     (case listFiles sys r files s of
        (s', None) \<Rightarrow> s'
      | (s', Some err) \<Rightarrow> log sys ''fail to list files %s: %s.'' [query, err] s')"

text \<open>The file branch: open, serve the content under the name \<^verbatim>\<open>foo\<close>, close.\<close>

definition serve_file :: "system \<Rightarrow> request \<Rightarrow> string \<Rightarrow> FileInfo \<Rightarrow> state \<Rightarrow> state" where
  "serve_file sys r query fi s =
     (let s1 = call (Open query) s in
      case os_Open sys query of
        Inl err \<Rightarrow>
          internalServerError (log sys ''fail to open file %s: %s.'' [query, Error err] s1)
      | Inr f \<Rightarrow>
          let s2 = s1\<lparr>resp := ServeContent sys (resp s1) r ''foo'' (ModTime fi) f\<rparr>;
              s3 = call (Close query) s2
          in (case os_Close sys query of
                None \<Rightarrow> s3
              | Some err \<Rightarrow> log sys ''fail to close %s: %s.'' [query, Error err] s3))"

definition serve_dir :: "system \<Rightarrow> config \<Rightarrow> request \<Rightarrow> string \<Rightarrow> state \<Rightarrow> state" where
  "serve_dir sys cfg r query s =
     (if file cfg = ''*'' then
        let files = (if URL_Path r \<noteq> ''/'' then [''..''] else []);
            s1 = call (ReadDir query) s
        in (case ioutil_ReadDir sys query of
              Inl err \<Rightarrow> internalServerError s1
            | Inr fis \<Rightarrow> serve_list sys r query (files @ map Name fis) s1)
      else serve_list sys r query [file cfg] s)"

text \<open>The root path is always allowed. When \<^verbatim>\<open>file\<close> is \<^verbatim>\<open>*\<close> every file under the
  root may be visited; otherwise only the one file.\<close>

definition serve :: "system \<Rightarrow> config \<Rightarrow> request \<Rightarrow> state" where
  "serve sys cfg r =
     (if URL_Path r \<noteq> ''/'' \<and> file cfg \<noteq> ''*'' \<and> Trim (URL_Path r) ''/'' \<noteq> file cfg
      then NotFound start
      else
        let query = Join [root cfg, URL_Path r];
            s1 = call (Stat query) start
        in (case os_Stat sys query of
              Inl err \<Rightarrow>
                if IsNotExist err then NotFound s1
                else internalServerError
                       (log sys ''fail to stat file %s: %s.'' [query, Error err] s1)
            | Inr fi \<Rightarrow>
                if IsDir fi then serve_dir sys cfg r query s1
                else serve_file sys r query fi s1))"

subsection \<open>resolvePath\<close>

text \<open>\<^verbatim>\<open>resolvePath\<close> returns an error or nil and leaves its result in the globals; here
  it returns both. In the directory branch the error of \<^verbatim>\<open>filepath.Abs\<close> is assigned
  and not looked at.\<close>

definition resolvePath :: "system \<Rightarrow> config \<Rightarrow> os_error option \<times> config" where
  "resolvePath sys cfg =
     (let cfg1 = (if length (root cfg) = 0 then cfg\<lparr>root := fst (os_Getwd sys)\<rparr> else cfg)
      in case os_Stat sys (root cfg1) of
           Inl err \<Rightarrow> (Some err, cfg1)
         | Inr fi \<Rightarrow>
             if IsDir fi then
               (None, cfg1\<lparr>root := fst (Abs sys (root cfg1)), file := ''*''\<rparr>)
             else
               (case Abs sys (root cfg1) of
                  (a, Some err) \<Rightarrow> (Some err, cfg1)
                | (a, None) \<Rightarrow> (None, cfg1\<lparr>root := Dir a, file := Base a\<rparr>)))"

text \<open>The globals as \<^verbatim>\<open>flag.Parse\<close> leaves them for the argument of \<^verbatim>\<open>-f\<close>.\<close>

definition flags :: "string \<Rightarrow> config" where
  "flags f = \<lparr>root = f, file = []\<rparr>"

text \<open>The start of \<^verbatim>\<open>main\<close>: when \<^verbatim>\<open>resolvePath\<close> returns an error, \<^verbatim>\<open>exit\<close> prints it
  on standard error and ends the process with code 10; otherwise startup goes on with
  the globals as resolved.\<close>

datatype startup = Exit nat string | Resolved config

definition exit :: "os_error \<Rightarrow> startup" where
  "exit msg = Exit 10 (Error msg @ ''\<newline>'')"

definition main_resolvePath :: "system \<Rightarrow> string \<Rightarrow> startup" where
  "main_resolvePath sys f =
     (case resolvePath sys (flags f) of
        (Some err, cfg) \<Rightarrow> exit err
      | (None, cfg) \<Rightarrow> Resolved cfg)"

section \<open>Notions used to state the properties\<close>

subsection \<open>The listing page\<close>

text \<open>The page as it is described: a document titled with the request path, a heading
  \<^verbatim>\<open>Index of\<close> and the path, and one anchor line per entry whose target is the request
  path joined with the entry's name.\<close>

definition entry_line :: "string \<Rightarrow> string \<Rightarrow> string" where
  "entry_line path name =
     ''<a href=\"'' @ Join [path, name] @ ''\">'' @ name @ ''</a><br>\<newline>''"

definition listing_page :: "string \<Rightarrow> string list \<Rightarrow> string" where
  "listing_page path names =
     ''<!DOCTYPE html>\<newline>'' @
     ''<html lang=\"en\">\<newline>'' @
     ''<head>\<newline>'' @
     ''    <meta charset=\"UTF-8\">\<newline>'' @
     ''    <title>'' @ path @ ''</title>\<newline>'' @
     ''</head>\<newline>'' @
     ''<body>\<newline>'' @
     ''<h1>Index of '' @ path @ ''</h1>\<newline>'' @
     ''<hr>\<newline>'' @
     ''<p>\<newline>'' @
     concat (map (entry_line path) names) @
     ''</p>\<newline>'' @
     ''</body>\<newline>'' @
     ''</html>''"

subsection \<open>Paths inside a directory\<close>

text \<open>A path lies within a directory when it is the directory itself, or starts with
  the directory and a separator and has no \<^verbatim>\<open>..\<close> element after that.\<close>

definition within :: "string \<Rightarrow> string \<Rightarrow> bool" where
  "within dir p =
     (p = dir \<or>
      (let d = (if dir = ''/'' then dir else dir @ ''/'')
       in prefix d p \<and> ''..'' \<notin> set (elements (drop (length d) p))))"

text \<open>What \<^verbatim>\<open>filepath.Clean\<close> keeps of a rooted path: elements that are not empty, not
  \<^verbatim>\<open>.\<close>, not \<^verbatim>\<open>..\<close> and hold no separator.\<close>

definition kept_elem :: "string \<Rightarrow> bool" where
  "kept_elem e = (e \<noteq> [] \<and> e \<noteq> ''.'' \<and> e \<noteq> ''..'' \<and> CHR ''/'' \<notin> set e)"

fun path_of :: "syscall \<Rightarrow> string" where
  "path_of (Stat p) = p"
| "path_of (ReadDir p) = p"
| "path_of (Open p) = p"
| "path_of (Close p) = p"

text \<open>The access policy of \<^verbatim>\<open>serve\<close>: the condition under which it answers 404 before
  it looks at the file system.\<close>

definition rejected :: "config \<Rightarrow> request \<Rightarrow> bool" where
  "rejected cfg r =
     (URL_Path r \<noteq> ''/'' \<and> file cfg \<noteq> ''*'' \<and> Trim (URL_Path r) ''/'' \<noteq> file cfg)"

subsection \<open>An example site\<close>

text \<open>
  The directory \<^verbatim>\<open>/srv/site\<close> holds the files \<^verbatim>\<open>index.html\<close> and \<^verbatim>\<open>other.html\<close>, a file
  \<^verbatim>\<open>old.txt\<close> whose modification time is the Unix epoch, a file \<^verbatim>\<open>private.txt\<close> that
  can be examined but not opened, a directory \<^verbatim>\<open>sub\<close>, a directory \<^verbatim>\<open>closed\<close> that
  cannot be read and an entry \<^verbatim>\<open>locked\<close> that cannot be examined (and is not listed).
  Beside it lies the file \<^verbatim>\<open>/srv/secret\<close>. The working directory is \<^verbatim>\<open>/srv/site\<close>.
\<close>

definition regular :: "string \<Rightarrow> int \<Rightarrow> FileInfo" where
  "regular name t = \<lparr>Name = name, Mode = ModeRegular, ModTime = \<lparr>sec = t, nsec = 0\<rparr>\<rparr>"

definition directory :: "string \<Rightarrow> int \<Rightarrow> FileInfo" where
  "directory name t = \<lparr>Name = name, Mode = ModeDir, ModTime = \<lparr>sec = t, nsec = 0\<rparr>\<rparr>"

definition site_stat :: "string \<Rightarrow> errno + FileInfo" where
  "site_stat p =
     (if p = ''/srv/site'' then Inr (directory ''site'' 1700000000)
      else if p = ''/srv/site/index.html'' \<or> p = ''index.html''
        then Inr (regular ''index.html'' 1700000100)
      else if p = ''/srv/site/old.txt'' then Inr (regular ''old.txt'' 0)
      else if p = ''/srv/site/other.html'' then Inr (regular ''other.html'' 1700000200)
      else if p = ''/srv/site/private.txt'' then Inr (regular ''private.txt'' 1700000300)
      else if p = ''/srv/site/sub'' then Inr (directory ''sub'' 1700000400)
      else if p = ''/srv/site/closed'' then Inr (directory ''closed'' 1700000500)
      else if p = ''/srv/site/locked'' then Inl EACCES
      else if p = ''/srv/secret'' then Inr (regular ''secret'' 1700000600)
      else Inl ENOENT)"

definition site_readdir :: "string \<Rightarrow> errno + FileInfo list" where
  "site_readdir p =
     (if p = ''/srv/site'' then
        Inr [directory ''closed'' 1700000500, regular ''index.html'' 1700000100,
             regular ''old.txt'' 0, regular ''other.html'' 1700000200,
             regular ''private.txt'' 1700000300, directory ''sub'' 1700000400]
      else if p = ''/srv/site/sub'' then Inr [regular ''a.txt'' 1700000700]
      else if p = ''/srv/site/closed'' then Inl EACCES
      else Inl ENOENT)"

definition site_open :: "string \<Rightarrow> errno + string" where
  "site_open p =
     (if p = ''/srv/site/index.html'' then Inr ''<h1>home</h1>''
      else if p = ''/srv/site/old.txt'' then Inr ''old news''
      else if p = ''/srv/site/other.html'' then Inr ''<h1>other</h1>''
      else if p = ''/srv/site/private.txt'' then Inl EACCES
      else if p = ''/srv/secret'' then Inr ''top secret''
      else Inl ENOENT)"

definition site :: system where
  "site =
     \<lparr>stat = site_stat, readdir = site_readdir, open_file = site_open,
      close_file = (\<lambda>p. None), getwd = Inr ''/srv/site'',
      clock = ''2024.01.01 12:00:00 '', conn_write = None,
      mimeTypes = (\<lambda>ext. if ext = ''.html'' then Some ''text/html; charset=utf-8'' else None),
      sniff = (\<lambda>b. ''text/plain; charset=utf-8'')\<rparr>"

definition everything :: config where
  "everything = \<lparr>root = ''/srv/site'', file = ''*''\<rparr>"

definition only_index :: config where
  "only_index = \<lparr>root = ''/srv/site'', file = ''index.html''\<rparr>"

definition GET :: "string \<Rightarrow> request" where
  "GET p = \<lparr>Method = ''GET'', URL_Path = p, If_Modified_Since = None\<rparr>"

section \<open>Properties\<close>

subsection \<open>Unfolding the handler\<close>

lemmas resp_defs = new_response_def WriteHeader_def Write_def http_Error_def http_NotFound_def

lemmas step_defs = start_def call_def log_def internalServerError_def NotFound_def

lemmas site_defs = site_def site_stat_def site_readdir_def site_open_def regular_def
  directory_def IsDir_def IsRegular_def everything_def only_index_def GET_def

lemmas branch_defs = serve_def serve_dir_def serve_file_def serve_list_def listFiles_def
  os_Stat_def ioutil_ReadDir_def os_Open_def os_Close_def

lemmas path_defs = Clean_def IsAbs_def clean_elem_def Trim_def

declare Join.simps [simp del]

lemma call_simps [simp]:
  "resp (call c s) = resp s" "stderr (call c s) = stderr s" "calls (call c s) = calls s @ [c]"
  by (simp_all add: call_def)

lemma log_simps [simp]:
  "resp (log sys f a s) = resp s" "calls (log sys f a s) = calls s"
  by (simp_all add: log_def Let_def)

lemma NotFound_simps [simp]:
  "resp (NotFound s) = http_NotFound (resp s)" "stderr (NotFound s) = stderr s"
  "calls (NotFound s) = calls s"
  by (simp_all add: NotFound_def)

lemma internalServerError_simps [simp]:
  "resp (internalServerError s) = http_Error (resp s) ''internal server error.'' 500"
  "stderr (internalServerError s) = stderr s"
  "calls (internalServerError s) = calls s"
  by (simp_all add: internalServerError_def)

lemma start_simps [simp]:
  "resp start = new_response" "stderr start = []" "calls start = []"
  by (simp_all add: start_def)

lemma http_Error_new:
  "http_Error new_response msg code =
     \<lparr>wroteHeader = True, status = code, Content_Type = Some ''text/plain; charset=utf-8'',
      Last_Modified = None, body = msg @ ''\<newline>''\<rparr>"
  by (simp add: resp_defs)

lemma Write_new:
  "Write b new_response =
     \<lparr>wroteHeader = True, status = 200, Content_Type = None, Last_Modified = None, body = b\<rparr>"
  by (simp add: resp_defs)

subsection \<open>Formatting\<close>

lemma Sprintf_plain: "CHR ''%'' \<notin> set p \<Longrightarrow> Sprintf (p @ f) a = p @ Sprintf f a"
proof (induction p)
  case Nil
  then show ?case by simp
next
  case (Cons c p)
  show ?case
  proof (cases "p @ f")
    case Nil
    then show ?thesis by simp
  next
    case (Cons d rest)
    with Cons.prems Cons.IH show ?thesis by auto
  qed
qed

lemma listFiles_loop_lines:
  "listFiles_loop r buf files = buf @ concat (map (entry_line (URL_Path r)) files)"
  by (induction files arbitrary: buf) (simp_all add: entry_line_def)

lemma Sprintf_html:
  "Sprintf html [p, p, concat (map (entry_line p) names)] = listing_page p names"
  by (simp add: html_def listing_page_def)

lemma listFiles_resp:
  "resp (fst (listFiles sys r files s)) =
     Write (listing_page (URL_Path r) files) (resp s)"
  by (simp add: listFiles_def listFiles_loop_lines Sprintf_html)

subsection \<open>The access check\<close>

text \<open>
  C1. In single-file mode (\<^verbatim>\<open>file\<close> is not \<^verbatim>\<open>*\<close>), a request whose path is not \<^verbatim>\<open>/\<close>
  and whose path with leading and trailing \<^verbatim>\<open>/\<close> trimmed differs from \<^verbatim>\<open>file\<close> is
  answered 404 Not Found, and the handler stops there: it makes no file system call
  and logs nothing, whatever the file system holds at that path.
\<close>

theorem serve_single_file_rejects:
  assumes "URL_Path r \<noteq> ''/''" and "file cfg \<noteq> ''*''"
    and "Trim (URL_Path r) ''/'' \<noteq> file cfg"
  shows "status (resp (serve sys cfg r)) = 404 \<and>
         body (resp (serve sys cfg r)) = ''404 page not found\<newline>'' \<and>
         calls (serve sys cfg r) = [] \<and>
         stderr (serve sys cfg r) = []"
  using assms by (simp add: serve_def resp_defs step_defs)

text \<open>On the example site in single-file mode, \<^verbatim>\<open>/other.html\<close> is answered 404 although
  the file exists.\<close>

theorem serve_single_file_rejects_witness:
  "stat site (Join [root only_index, ''/other.html'']) = Inr (regular ''other.html'' 1700000200) \<and>
   status (resp (serve site only_index (GET ''/other.html''))) = 404 \<and>
   body (resp (serve site only_index (GET ''/other.html''))) = ''404 page not found\<newline>'' \<and>
   calls (serve site only_index (GET ''/other.html'')) = [] \<and>
   stderr (serve site only_index (GET ''/other.html'')) = []"
proof -
  have "URL_Path (GET ''/other.html'') \<noteq> ''/''"
    by (simp add: GET_def)
  moreover have "file only_index \<noteq> ''*''"
    by (simp add: only_index_def)
  moreover have "Trim (URL_Path (GET ''/other.html'')) ''/'' \<noteq> file only_index"
    by (simp add: GET_def only_index_def Trim_def)
  moreover have "stat site (Join [root only_index, ''/other.html'']) =
      Inr (regular ''other.html'' 1700000200)"
    by (simp add: site_defs Join.simps path_defs)
  ultimately show ?thesis
    using serve_single_file_rejects [of "GET ''/other.html''" only_index site] by simp
qed

subsection \<open>The branches of the handler\<close>

lemma serve_list_simps [simp]:
  "resp (serve_list sys r query files s) = Write (listing_page (URL_Path r) files) (resp s)"
  "calls (serve_list sys r query files s) = calls s"
  using listFiles_resp [of sys r files s]
  by (auto simp: serve_list_def listFiles_def Let_def split: option.splits)

lemma Ext_foo: "Ext ''foo'' = []"
  by (simp add: Ext_def)

lemma ServeContent_foo:
  "ServeContent sys new_response r ''foo'' t c =
     (if checkIfModifiedSince r t = condFalse then
        \<lparr>wroteHeader = True, status = 304, Content_Type = None,
         Last_Modified = (if isZeroTime t then None else Some (sec t)), body = []\<rparr>
      else
        \<lparr>wroteHeader = True, status = 200, Content_Type = Some (sniff sys (take 512 c)),
         Last_Modified = (if isZeroTime t then None else Some (sec t)),
         body = (if Method r \<noteq> ''HEAD'' then c else [])\<rparr>)"
  by (simp add: ServeContent_def setLastModified_def writeNotModified_def WriteHeader_def
      new_response_def TypeByExtension_def Ext_foo Let_def)

lemma status_ServeContent [simp]:
  "status (ServeContent sys new_response r ''foo'' t c) \<noteq> 404"
  by (simp add: ServeContent_foo)

lemma calls_serve_file:
  "calls (serve_file sys r query fi s) =
     calls s @ Open query # (case open_file sys query of Inl e \<Rightarrow> [] | Inr f \<Rightarrow> [Close query])"
  by (simp add: serve_file_def os_Open_def os_Close_def Let_def split: sum.splits option.splits)

lemma resp_serve_file:
  "resp (serve_file sys r query fi s) =
     (case open_file sys query of
        Inl e \<Rightarrow> http_Error (resp s) ''internal server error.'' 500
      | Inr f \<Rightarrow> ServeContent sys (resp s) r ''foo'' (ModTime fi) f)"
  by (simp add: serve_file_def os_Open_def os_Close_def Let_def split: sum.splits option.splits)

lemma calls_serve_dir:
  "calls (serve_dir sys cfg r query s) =
     calls s @ (if file cfg = ''*'' then [ReadDir query] else [])"
  by (simp add: serve_dir_def ioutil_ReadDir_def Let_def split: sum.splits)

lemma resp_serve_dir:
  "resp (serve_dir sys cfg r query s) =
     (if file cfg = ''*'' then
        (case readdir sys query of
           Inl e \<Rightarrow> http_Error (resp s) ''internal server error.'' 500
         | Inr fis \<Rightarrow>
             Write (listing_page (URL_Path r)
               ((if URL_Path r \<noteq> ''/'' then [''..''] else []) @ map Name fis)) (resp s))
      else Write (listing_page (URL_Path r) [file cfg]) (resp s))"
  by (simp add: serve_dir_def ioutil_ReadDir_def Let_def split: sum.splits)

text \<open>A request that the access check lets through is looked up in the file system.\<close>

lemma serve_passed:
  "\<not> rejected cfg r \<Longrightarrow>
   serve sys cfg r =
     (case stat sys (Join [root cfg, URL_Path r]) of
        Inl e \<Rightarrow>
          if e = ENOENT then NotFound (call (Stat (Join [root cfg, URL_Path r])) start)
          else internalServerError
                 (log sys ''fail to stat file %s: %s.''
                    [Join [root cfg, URL_Path r],
                     Error (PathError ''stat'' (Join [root cfg, URL_Path r]) e)]
                    (call (Stat (Join [root cfg, URL_Path r])) start))
      | Inr fi \<Rightarrow>
          if IsDir fi
          then serve_dir sys cfg r (Join [root cfg, URL_Path r])
                 (call (Stat (Join [root cfg, URL_Path r])) start)
          else serve_file sys r (Join [root cfg, URL_Path r]) fi
                 (call (Stat (Join [root cfg, URL_Path r])) start))"
  by (auto simp: serve_def rejected_def os_Stat_def Let_def split: sum.splits)

subsection \<open>The listing page\<close>

text \<open>
  C7. For every request path and every list of entries, the body \<^verbatim>\<open>listFiles\<close> writes
  is an HTML document whose \<^verbatim>\<open>title\<close> is the request path, whose \<^verbatim>\<open>h1\<close> reads
  \<^verbatim>\<open>Index of\<close> followed by the request path, and which holds, for each entry in
  order, exactly one line: an anchor whose target is the request path joined with the
  entry's name and whose text is the name, followed by a line break.
\<close>

theorem listFiles_body:
  "body (resp (fst (listFiles sys r files s))) =
     body (resp s) @
     ''<!DOCTYPE html>\<newline>'' @
     ''<html lang=\"en\">\<newline>'' @
     ''<head>\<newline>'' @
     ''    <meta charset=\"UTF-8\">\<newline>'' @
     ''    <title>'' @ URL_Path r @ ''</title>\<newline>'' @
     ''</head>\<newline>'' @
     ''<body>\<newline>'' @
     ''<h1>Index of '' @ URL_Path r @ ''</h1>\<newline>'' @
     ''<hr>\<newline>'' @
     ''<p>\<newline>'' @
     concat (map (\<lambda>name. ''<a href=\"'' @ Join [URL_Path r, name] @ ''\">'' @ name @
                          ''</a><br>\<newline>'') files) @
     ''</p>\<newline>'' @
     ''</body>\<newline>'' @
     ''</html>''"
proof -
  have "entry_line (URL_Path r) =
      (\<lambda>name. ''<a href=\"'' @ Join [URL_Path r, name] @ ''\">'' @ name @ ''</a><br>\<newline>'')"
    by (rule ext) (simp add: entry_line_def)
  moreover have "body (Write b w) = body w @ b" for b w
    by (simp add: Write_def WriteHeader_def Let_def)
  ultimately show ?thesis
    by (simp add: listFiles_resp listing_page_def)
qed

subsection \<open>The root path\<close>

text \<open>
  C6. In both modes a request for the root path \<^verbatim>\<open>/\<close> is never rejected by the access
  check: the handler goes on to examine the root directory (its first file system
  call is the stat of the root joined with \<^verbatim>\<open>/\<close>), and a 404 for \<^verbatim>\<open>/\<close> arises only
  when that stat reports that the path does not exist.
\<close>

theorem serve_root_path_reaches_stat:
  assumes "URL_Path r = ''/''"
  shows "\<not> rejected cfg r \<and>
     (\<exists>cs. calls (serve sys cfg r) = Stat (Join [root cfg, ''/'']) # cs) \<and>
     (status (resp (serve sys cfg r)) = 404 \<longrightarrow>
        stat sys (Join [root cfg, ''/'']) = Inl ENOENT)"
proof -
  have ok: "\<not> rejected cfg r"
    using assms by (simp add: rejected_def)
  let ?q = "Join [root cfg, ''/'']"
  show ?thesis
  proof (cases "stat sys ?q")
    case (Inl e)
    with assms ok show ?thesis
      by (simp add: serve_passed http_Error_new http_NotFound_def)
  next
    case (Inr fi)
    show ?thesis
    proof (cases "IsDir fi")
      case True
      with assms ok Inr show ?thesis
        by (simp add: serve_passed calls_serve_dir resp_serve_dir http_Error_new Write_new
            split: sum.splits)
    next
      case False
      with assms ok Inr show ?thesis
        by (auto simp: serve_passed calls_serve_file resp_serve_file http_Error_new
            split: sum.splits)
    qed
  qed
qed

text \<open>On the example site in single-file mode the root path is examined and listed.\<close>

theorem serve_root_path_reaches_stat_witness:
  "URL_Path (GET ''/'') = ''/'' \<and>
   \<not> rejected only_index (GET ''/'') \<and>
   (\<exists>cs. calls (serve site only_index (GET ''/'')) = Stat ''/srv/site'' # cs) \<and>
   status (resp (serve site only_index (GET ''/''))) = 200"
proof -
  have p: "URL_Path (GET ''/'') = ''/''"
    by (simp add: GET_def)
  have q: "Join [root only_index, ''/''] = ''/srv/site''"
    by (simp add: only_index_def Join.simps path_defs)
  have "status (resp (serve site only_index (GET ''/''))) = 200"
    by code_simp
  with p q serve_root_path_reaches_stat [OF p, of only_index site] show ?thesis
    by simp
qed

subsection \<open>Directories\<close>

text \<open>
  C2. In serve-everything mode (\<^verbatim>\<open>file\<close> is \<^verbatim>\<open>*\<close>), when the path the request resolves
  to is a directory: if the directory can be read, the answer is 200 and the page
  lists exactly the names of the directory's entries, in the order the read returns
  them, with \<^verbatim>\<open>..\<close> put in front if and only if the request path is not \<^verbatim>\<open>/\<close>; if
  reading the directory fails, the answer is 500 Internal Server Error and no listing.
\<close>

theorem serve_everything_lists_directory:
  assumes "file cfg = ''*''"
    and "stat sys (Join [root cfg, URL_Path r]) = Inr fi"
    and "IsDir fi"
  shows "(case readdir sys (Join [root cfg, URL_Path r]) of
            Inr fis \<Rightarrow>
              status (resp (serve sys cfg r)) = 200 \<and>
              body (resp (serve sys cfg r)) =
                listing_page (URL_Path r)
                  ((if URL_Path r = ''/'' then [] else [''..'']) @ map Name fis)
          | Inl e \<Rightarrow>
              status (resp (serve sys cfg r)) = 500 \<and>
              body (resp (serve sys cfg r)) = ''internal server error.\<newline>'')"
proof -
  have "\<not> rejected cfg r"
    using assms(1) by (simp add: rejected_def)
  then have "resp (serve sys cfg r) =
      resp (serve_dir sys cfg r (Join [root cfg, URL_Path r])
        (call (Stat (Join [root cfg, URL_Path r])) start))"
    using assms(2,3) by (simp add: serve_passed)
  with assms(1) show ?thesis
    by (cases "readdir sys (Join [root cfg, URL_Path r])")
      (simp_all add: resp_serve_dir http_Error_new Write_new)
qed

text \<open>On the example site: \<^verbatim>\<open>/\<close> lists the six entries of the root, \<^verbatim>\<open>/sub\<close> lists
  \<^verbatim>\<open>..\<close> and its one entry, and \<^verbatim>\<open>/closed\<close>, which cannot be read, is answered 500.\<close>

theorem serve_everything_lists_directory_witness:
  "status (resp (serve site everything (GET ''/''))) = 200 \<and>
   body (resp (serve site everything (GET ''/''))) =
     listing_page ''/''
       [''closed'', ''index.html'', ''old.txt'', ''other.html'', ''private.txt'', ''sub''] \<and>
   status (resp (serve site everything (GET ''/sub''))) = 200 \<and>
   body (resp (serve site everything (GET ''/sub''))) = listing_page ''/sub'' [''..'', ''a.txt''] \<and>
   status (resp (serve site everything (GET ''/closed''))) = 500 \<and>
   body (resp (serve site everything (GET ''/closed''))) = ''internal server error.\<newline>''"
proof -
  have f: "file everything = ''*''"
    by (simp add: everything_def)
  have u: "URL_Path (GET ''/'') = ''/''" "URL_Path (GET ''/sub'') = ''/sub''"
    "URL_Path (GET ''/closed'') = ''/closed''"
    by (simp_all add: GET_def)
  have q: "Join [root everything, ''/''] = ''/srv/site''"
    "Join [root everything, ''/sub''] = ''/srv/site/sub''"
    "Join [root everything, ''/closed''] = ''/srv/site/closed''"
    by (simp_all add: everything_def Join.simps path_defs)
  have s1: "stat site (Join [root everything, URL_Path (GET ''/'')]) =
      Inr (directory ''site'' 1700000000)"
    and s2: "stat site (Join [root everything, URL_Path (GET ''/sub'')]) =
      Inr (directory ''sub'' 1700000400)"
    and s3: "stat site (Join [root everything, URL_Path (GET ''/closed'')]) =
      Inr (directory ''closed'' 1700000500)"
    by (simp_all add: u q site_def site_stat_def)
  have d: "\<And>n t. IsDir (directory n t)"
    by (simp add: directory_def IsDir_def)
  have r: "readdir site ''/srv/site'' =
      Inr [directory ''closed'' 1700000500, regular ''index.html'' 1700000100,
           regular ''old.txt'' 0, regular ''other.html'' 1700000200,
           regular ''private.txt'' 1700000300, directory ''sub'' 1700000400]"
    "readdir site ''/srv/site/sub'' = Inr [regular ''a.txt'' 1700000700]"
    "readdir site ''/srv/site/closed'' = Inl EACCES"
    by (simp_all add: site_def site_readdir_def)
  have n: "\<And>n t. Name (directory n t) = n" "\<And>n t. Name (regular n t) = n"
    by (simp_all add: directory_def regular_def)
  from serve_everything_lists_directory [OF f s1 d] serve_everything_lists_directory [OF f s2 d]
    serve_everything_lists_directory [OF f s3 d]
  show ?thesis
    by (simp add: u q r n)
qed

text \<open>
  C5. In single-file mode, when the path the request resolves to is a directory, the
  request is either rejected by the access check (404, nothing listed) or, as for the
  root path \<^verbatim>\<open>/\<close>, answered 200 with a page that lists exactly one entry, the
  configured \<^verbatim>\<open>file\<close>. The directory is not read, so the page does not depend on
  what the directory holds.
\<close>

theorem serve_single_file_lists_one_entry:
  assumes "file cfg \<noteq> ''*''"
    and "stat sys (Join [root cfg, URL_Path r]) = Inr fi"
    and "IsDir fi"
  shows "(if rejected cfg r
          then status (resp (serve sys cfg r)) = 404 \<and> calls (serve sys cfg r) = []
          else status (resp (serve sys cfg r)) = 200 \<and>
               body (resp (serve sys cfg r)) = listing_page (URL_Path r) [file cfg] \<and>
               calls (serve sys cfg r) = [Stat (Join [root cfg, URL_Path r])]) \<and>
         (URL_Path r = ''/'' \<or> Trim (URL_Path r) ''/'' = file cfg) = (\<not> rejected cfg r)"
proof (cases "rejected cfg r")
  case True
  then have "URL_Path r \<noteq> ''/''" and "Trim (URL_Path r) ''/'' \<noteq> file cfg"
    by (simp_all add: rejected_def)
  with assms(1) True show ?thesis
    by (simp add: serve_def resp_defs step_defs)
next
  case False
  with assms show ?thesis
    by (auto simp: serve_passed resp_serve_dir calls_serve_dir Write_new rejected_def)
qed

text \<open>On the example site in single-file mode, \<^verbatim>\<open>/\<close> lists \<^verbatim>\<open>index.html\<close> alone
  although the directory holds six entries.\<close>

theorem serve_single_file_lists_one_entry_witness:
  "\<not> rejected only_index (GET ''/'') \<and>
   status (resp (serve site only_index (GET ''/''))) = 200 \<and>
   body (resp (serve site only_index (GET ''/''))) = listing_page ''/'' [''index.html''] \<and>
   calls (serve site only_index (GET ''/'')) = [Stat ''/srv/site'']"
proof -
  have f: "file only_index \<noteq> ''*''"
    by (simp add: only_index_def)
  have u: "URL_Path (GET ''/'') = ''/''"
    by (simp add: GET_def)
  have q: "Join [root only_index, ''/''] = ''/srv/site''"
    by (simp add: only_index_def Join.simps path_defs)
  have s: "stat site (Join [root only_index, URL_Path (GET ''/'')]) =
      Inr (directory ''site'' 1700000000)"
    by (simp add: u q site_def site_stat_def)
  have d: "IsDir (directory ''site'' 1700000000)"
    by (simp add: directory_def IsDir_def)
  have n: "\<not> rejected only_index (GET ''/'')"
    by (simp add: rejected_def u)
  have g: "file only_index = ''index.html''"
    by (simp add: only_index_def)
  from serve_single_file_lists_one_entry [OF f s d] n show ?thesis
    by (simp add: u q g)
qed

subsection \<open>Failure of the stat\<close>

lemma stderr_log:
  "stderr (log sys ''fail to stat file %s: %s.'' a s) =
     stderr s @ [Sprintf (clock sys @ ''fail to stat file %s: %s.\<newline>'') a]"
  by (simp add: log_def suffix_def)

text \<open>
  C4. For a request that passes the access check, when the stat of the resolved path
  fails: if the error is that the path does not exist (\<^verbatim>\<open>ENOENT\<close>, which is also what
  the system reports when a directory on the way to the path does not exist) the
  answer is 404 Not Found and nothing is logged; for any other error the answer is
  500 with the fixed body \<^verbatim>\<open>internal server error.\<close>, the same response whatever
  the error, and the error's text goes to one line of the log. Nothing but the stat
  is called.
\<close>

theorem serve_stat_error:
  assumes "\<not> rejected cfg r"
    and "stat sys (Join [root cfg, URL_Path r]) = Inl e"
  shows "(if e = ENOENT
          then status (resp (serve sys cfg r)) = 404 \<and>
               body (resp (serve sys cfg r)) = ''404 page not found\<newline>'' \<and>
               stderr (serve sys cfg r) = []
          else resp (serve sys cfg r) =
                 \<lparr>wroteHeader = True, status = 500,
                  Content_Type = Some ''text/plain; charset=utf-8'',
                  Last_Modified = None, body = ''internal server error.\<newline>''\<rparr> \<and>
               stderr (serve sys cfg r) =
                 [Sprintf (clock sys @ ''fail to stat file %s: %s.\<newline>'')
                    [Join [root cfg, URL_Path r],
                     ''stat '' @ Join [root cfg, URL_Path r] @ '': '' @ strerror e]] \<and>
               (CHR ''%'' \<notin> set (clock sys) \<longrightarrow>
                  stderr (serve sys cfg r) =
                    [clock sys @ ''fail to stat file '' @ Join [root cfg, URL_Path r] @
                     '': stat '' @ Join [root cfg, URL_Path r] @ '': '' @ strerror e @
                     ''.\<newline>''])) \<and>
         calls (serve sys cfg r) = [Stat (Join [root cfg, URL_Path r])]"
  using assms
  by (simp add: serve_passed http_Error_new http_NotFound_def stderr_log Sprintf_plain)

text \<open>On the example site: \<^verbatim>\<open>/nodir/x.txt\<close>, whose parent directory does not exist, is
  answered 404; \<^verbatim>\<open>/locked\<close>, whose stat is refused, is answered 500 and logged.\<close>

theorem serve_stat_error_witness:
  "stat site ''/srv/site/nodir/x.txt'' = Inl ENOENT \<and>
   status (resp (serve site everything (GET ''/nodir/x.txt''))) = 404 \<and>
   stderr (serve site everything (GET ''/nodir/x.txt'')) = [] \<and>
   stat site ''/srv/site/locked'' = Inl EACCES \<and>
   status (resp (serve site everything (GET ''/locked''))) = 500 \<and>
   body (resp (serve site everything (GET ''/locked''))) = ''internal server error.\<newline>'' \<and>
   stderr (serve site everything (GET ''/locked'')) =
     [''2024.01.01 12:00:00 fail to stat file /srv/site/locked: '' @
      ''stat /srv/site/locked: permission denied.\<newline>'']"
proof -
  have ok: "\<not> rejected everything r" for r
    by (simp add: rejected_def everything_def)
  have u: "URL_Path (GET ''/nodir/x.txt'') = ''/nodir/x.txt''"
    "URL_Path (GET ''/locked'') = ''/locked''"
    by (simp_all add: GET_def)
  have q: "Join [root everything, ''/nodir/x.txt''] = ''/srv/site/nodir/x.txt''"
    "Join [root everything, ''/locked''] = ''/srv/site/locked''"
    by (simp_all add: everything_def Join.simps path_defs)
  have s: "stat site ''/srv/site/nodir/x.txt'' = Inl ENOENT"
    "stat site ''/srv/site/locked'' = Inl EACCES"
    by (simp_all add: site_def site_stat_def)
  have s1: "stat site (Join [root everything, URL_Path (GET ''/nodir/x.txt'')]) = Inl ENOENT"
    and s2: "stat site (Join [root everything, URL_Path (GET ''/locked'')]) = Inl EACCES"
    by (simp_all add: u q s)
  have c: "clock site = ''2024.01.01 12:00:00 ''"
    by (simp add: site_def)
  from serve_stat_error [OF ok s1] serve_stat_error [OF ok s2] show ?thesis
    by (simp add: u q s c)
qed

subsection \<open>Files\<close>

text \<open>
  C10. When the path a request resolves to is not a directory and can be opened, the
  response is what the content responder gives for the constant name \<^verbatim>\<open>foo\<close>, the
  file's modification time and the file's content: the name of the file is not passed
  on. So the \<^verbatim>\<open>Content-Type\<close> never comes from the file's extension, whatever the
  table of types says about it: it is absent on a 304 and otherwise what content
  sniffing finds in the first 512 bytes.
\<close>

theorem serve_file_name_is_foo:
  assumes "\<not> rejected cfg r"
    and "stat sys (Join [root cfg, URL_Path r]) = Inr fi"
    and "\<not> IsDir fi"
    and "open_file sys (Join [root cfg, URL_Path r]) = Inr f"
  shows "resp (serve sys cfg r) = ServeContent sys new_response r ''foo'' (ModTime fi) f \<and>
         Content_Type (resp (serve sys cfg r)) =
           (if checkIfModifiedSince r (ModTime fi) = condFalse then None
            else Some (sniff sys (take 512 f)))"
  using assms by (simp add: serve_passed resp_serve_file ServeContent_foo)

text \<open>On the example site, whose table of types knows \<^verbatim>\<open>.html\<close>, \<^verbatim>\<open>/index.html\<close> is
  served with the sniffed type.\<close>

theorem serve_file_name_is_foo_witness:
  "mimeTypes site (Ext ''/srv/site/index.html'') = Some ''text/html; charset=utf-8'' \<and>
   resp (serve site everything (GET ''/index.html'')) =
     ServeContent site new_response (GET ''/index.html'') ''foo''
       \<lparr>sec = 1700000100, nsec = 0\<rparr> ''<h1>home</h1>'' \<and>
   Content_Type (resp (serve site everything (GET ''/index.html''))) =
     Some ''text/plain; charset=utf-8''"
proof -
  have ok: "\<not> rejected everything (GET ''/index.html'')"
    by (simp add: rejected_def everything_def)
  have u: "URL_Path (GET ''/index.html'') = ''/index.html''"
    by (simp add: GET_def)
  have q: "Join [root everything, ''/index.html''] = ''/srv/site/index.html''"
    by (simp add: everything_def Join.simps path_defs)
  have s: "stat site (Join [root everything, URL_Path (GET ''/index.html'')]) =
      Inr (regular ''index.html'' 1700000100)"
    by (simp add: u q site_def site_stat_def)
  have d: "\<not> IsDir (regular ''index.html'' 1700000100)"
    by (simp add: regular_def IsDir_def)
  have f: "open_file site (Join [root everything, URL_Path (GET ''/index.html'')]) =
      Inr ''<h1>home</h1>''"
    by (simp add: u q site_def site_open_def)
  have m: "mimeTypes site (Ext ''/srv/site/index.html'') = Some ''text/html; charset=utf-8''"
    by (simp add: site_def Ext_def)
  have c: "checkIfModifiedSince (GET ''/index.html'') t = condNone" for t
    by (simp add: checkIfModifiedSince_def GET_def)
  have n: "sniff site b = ''text/plain; charset=utf-8''" for b
    by (simp add: site_def)
  from serve_file_name_is_foo [OF ok s d f] m show ?thesis
    by (auto simp: c n regular_def)
qed

lemma IsRegular_not_IsDir: "IsRegular fi \<Longrightarrow> \<not> IsDir fi"
  by (simp add: IsRegular_def IsDir_def)

text \<open>
  C9, as the handler has it. For a \<^verbatim>\<open>GET\<close> request (with no conditional header but
  \<^verbatim>\<open>If-Modified-Since\<close> and no range) that passes the access check and whose resolved
  path is a regular file that can be opened and has a modification time other than
  the zero time and the Unix epoch: when the header's time is the modification time,
  truncated to the second, or a later one, the answer is 304 Not Modified with no
  body; when it is earlier, the answer is 200 with the whole content.
\<close>

theorem serve_file_if_modified_since:
  assumes "Method r = ''GET''"
    and "\<not> rejected cfg r"
    and "stat sys (Join [root cfg, URL_Path r]) = Inr fi"
    and "IsRegular fi"
    and "open_file sys (Join [root cfg, URL_Path r]) = Inr f"
    and "\<not> isZeroTime (ModTime fi)"
    and "If_Modified_Since r = Some t"
  shows "(if sec (ModTime fi) \<le> t
          then status (resp (serve sys cfg r)) = 304 \<and> body (resp (serve sys cfg r)) = []
          else status (resp (serve sys cfg r)) = 200 \<and> body (resp (serve sys cfg r)) = f)"
  using assms IsRegular_not_IsDir [of fi]
  by (simp add: serve_passed resp_serve_file ServeContent_foo checkIfModifiedSince_def)

text \<open>On the example site: \<^verbatim>\<open>/index.html\<close>, a regular file modified at 1700000100, is
  answered 304 for that time and 200 with the content for the second before.\<close>

theorem serve_file_if_modified_since_witness:
  "\<not> rejected everything (GET ''/index.html'') \<and>
   stat site (Join [root everything, ''/index.html'']) =
     Inr (regular ''index.html'' 1700000100) \<and>
   IsRegular (regular ''index.html'' 1700000100) \<and>
   open_file site (Join [root everything, ''/index.html'']) = Inr ''<h1>home</h1>'' \<and>
   status (resp (serve site everything
     \<lparr>Method = ''GET'', URL_Path = ''/index.html'', If_Modified_Since = Some 1700000100\<rparr>)) = 304 \<and>
   body (resp (serve site everything
     \<lparr>Method = ''GET'', URL_Path = ''/index.html'', If_Modified_Since = Some 1700000100\<rparr>)) = [] \<and>
   status (resp (serve site everything
     \<lparr>Method = ''GET'', URL_Path = ''/index.html'', If_Modified_Since = Some 1700000099\<rparr>)) = 200 \<and>
   body (resp (serve site everything
     \<lparr>Method = ''GET'', URL_Path = ''/index.html'', If_Modified_Since = Some 1700000099\<rparr>)) =
     ''<h1>home</h1>''"
proof -
  let ?r = "\<lambda>t. \<lparr>Method = ''GET'', URL_Path = ''/index.html'', If_Modified_Since = Some t\<rparr>"
  have g: "Method (?r t) = ''GET''" for t
    by simp
  have ok: "\<not> rejected everything r" for r
    by (simp add: rejected_def everything_def)
  have q: "Join [root everything, ''/index.html''] = ''/srv/site/index.html''"
    by (simp add: everything_def Join.simps path_defs)
  have s: "stat site (Join [root everything, URL_Path (?r t)]) =
      Inr (regular ''index.html'' 1700000100)" for t
    by (simp add: q site_def site_stat_def)
  have d: "IsRegular (regular ''index.html'' 1700000100)"
    by (simp add: regular_def IsRegular_def)
  have f: "open_file site (Join [root everything, URL_Path (?r t)]) = Inr ''<h1>home</h1>''" for t
    by (simp add: q site_def site_open_def)
  have z: "\<not> isZeroTime (ModTime (regular ''index.html'' 1700000100))"
    by (simp add: regular_def isZeroTime_def)
  have m: "sec (ModTime (regular ''index.html'' 1700000100)) = 1700000100"
    by (simp add: regular_def)
  from serve_file_if_modified_since [OF g ok s d f z, of 1700000100 1700000100]
    serve_file_if_modified_since [OF g ok s d f z, of 1700000099 1700000099]
  show ?thesis
    using ok s [of 0] d f [of 0] by (simp add: m)
qed

text \<open>
  C9, as it is stated, fails on the example site. Each of these requests resolves to a
  regular file.
  \<^item> In single-file mode for \<^verbatim>\<open>index.html\<close>, \<^verbatim>\<open>/other.html\<close> (modified at 1700000200)
    does not pass the access check: a request with that time, or with an earlier
    one, is answered 404.
  \<^item> \<^verbatim>\<open>/private.txt\<close> (modified at 1700000300) cannot be opened: a request with that
    time, or with an earlier one, is answered 500.
  \<^item> \<^verbatim>\<open>/index.html\<close> is modified at 1700000100: a \<^verbatim>\<open>POST\<close> request with that time is
    answered 200 with the content, and a \<^verbatim>\<open>HEAD\<close> request with an earlier time is
    answered 200 with no body.
  \<^item> \<^verbatim>\<open>/old.txt\<close> is modified at the epoch: a \<^verbatim>\<open>GET\<close> request with that time is
    answered 200 with the content.
\<close>

theorem serve_file_if_modified_since_counterexample:
  "stat site (Join [root only_index, ''/other.html'']) =
     Inr (regular ''other.html'' 1700000200) \<and>
   IsRegular (regular ''other.html'' 1700000200) \<and>
   status (resp (serve site only_index
     \<lparr>Method = ''GET'', URL_Path = ''/other.html'', If_Modified_Since = Some 1700000200\<rparr>)) = 404 \<and>
   status (resp (serve site only_index
     \<lparr>Method = ''GET'', URL_Path = ''/other.html'', If_Modified_Since = Some 1700000100\<rparr>)) = 404 \<and>
   stat site (Join [root everything, ''/private.txt'']) =
     Inr (regular ''private.txt'' 1700000300) \<and>
   IsRegular (regular ''private.txt'' 1700000300) \<and>
   status (resp (serve site everything
     \<lparr>Method = ''GET'', URL_Path = ''/private.txt'', If_Modified_Since = Some 1700000300\<rparr>)) = 500 \<and>
   status (resp (serve site everything
     \<lparr>Method = ''GET'', URL_Path = ''/private.txt'', If_Modified_Since = Some 1700000200\<rparr>)) = 500 \<and>
   stat site (Join [root everything, ''/index.html'']) =
     Inr (regular ''index.html'' 1700000100) \<and>
   IsRegular (regular ''index.html'' 1700000100) \<and>
   status (resp (serve site everything
     \<lparr>Method = ''POST'', URL_Path = ''/index.html'', If_Modified_Since = Some 1700000100\<rparr>)) = 200 \<and>
   status (resp (serve site everything
     \<lparr>Method = ''HEAD'', URL_Path = ''/index.html'', If_Modified_Since = Some 1700000000\<rparr>)) = 200 \<and>
   body (resp (serve site everything
     \<lparr>Method = ''HEAD'', URL_Path = ''/index.html'', If_Modified_Since = Some 1700000000\<rparr>)) = [] \<and>
   stat site (Join [root everything, ''/old.txt'']) = Inr (regular ''old.txt'' 0) \<and>
   IsRegular (regular ''old.txt'' 0) \<and>
   status (resp (serve site everything
     \<lparr>Method = ''GET'', URL_Path = ''/old.txt'', If_Modified_Since = Some 0\<rparr>)) = 200 \<and>
   body (resp (serve site everything
     \<lparr>Method = ''GET'', URL_Path = ''/old.txt'', If_Modified_Since = Some 0\<rparr>)) = ''old news''"
  by code_simp

subsection \<open>Joining a request path to the root\<close>

lemma elements_not_Nil: "elements p \<noteq> []"
  by (induction p) (auto split: list.splits)

lemma elements_append_slash: "elements (a @ CHR ''/'' # b) = elements a @ elements b"
proof (induction a)
  case Nil
  show ?case by simp
next
  case (Cons c a)
  obtain e es where "elements a = e # es"
    using elements_not_Nil [of a] by (cases "elements a") auto
  with Cons show ?case by simp
qed

lemma elements_no_slash: "e \<in> set (elements p) \<Longrightarrow> CHR ''/'' \<notin> set e"
proof (induction p arbitrary: e)
  case Nil
  then show ?case by simp
next
  case (Cons c p)
  then show ?case
    by (cases "elements p") (auto split: if_splits)
qed

lemma foldl_clean_elem_no_dotdot:
  "''..'' \<notin> set es \<Longrightarrow>
   foldl (clean_elem rooted) out es = rev (filter (\<lambda>e. e \<noteq> [] \<and> e \<noteq> ''.'') es) @ out"
  by (induction es arbitrary: out) (auto simp: clean_elem_def)

lemma clean_elem_non_empty:
  "list_all (\<lambda>e. e \<noteq> []) out \<Longrightarrow> list_all (\<lambda>e. e \<noteq> []) (clean_elem rooted out e)"
  by (auto simp: clean_elem_def split: list.splits)

lemma foldl_clean_elem_non_empty:
  "list_all (\<lambda>e. e \<noteq> []) out \<Longrightarrow>
   list_all (\<lambda>e. e \<noteq> []) (foldl (clean_elem rooted) out es)"
  by (induction es arbitrary: out) (simp_all add: clean_elem_non_empty)

lemma strings_Join_append:
  "xs \<noteq> [] \<Longrightarrow> ys \<noteq> [] \<Longrightarrow>
   strings_Join (xs @ ys) sep = strings_Join xs sep @ sep @ strings_Join ys sep"
proof (induction xs sep rule: strings_Join.induct)
  case (1 sep)
  then show ?case by simp
next
  case (2 e sep)
  then show ?case by (cases ys) simp_all
next
  case (3 e v va sep)
  then show ?case by simp
qed

lemma strings_Join_non_empty:
  "xs \<noteq> [] \<Longrightarrow> list_all (\<lambda>e. e \<noteq> []) xs \<Longrightarrow> strings_Join xs sep \<noteq> []"
  by (induction xs sep rule: strings_Join.induct) simp_all

lemma elements_plain: "CHR ''/'' \<notin> set e \<Longrightarrow> elements e = [e]"
  by (induction e) auto

lemma elements_strings_Join:
  "names \<noteq> [] \<Longrightarrow> \<forall>n \<in> set names. CHR ''/'' \<notin> set n \<Longrightarrow>
   elements (strings_Join names ''/'') = names"
proof (induction names "''/''" rule: strings_Join.induct)
  case 1
  then show ?case by simp
next
  case (2 e)
  then show ?case by (simp add: elements_plain)
next
  case (3 e v va)
  then show ?case by (simp add: elements_append_slash elements_plain)
qed

text \<open>A request path without a \<^verbatim>\<open>..\<close> element, joined to a clean absolute root, stays
  within the root.\<close>

lemma Join_within:
  assumes abs: "IsAbs dir" and clean: "Clean dir = dir"
    and nodd: "''..'' \<notin> set (elements path)"
  shows "within dir (Join [dir, path])"
proof -
  let ?f = "clean_elem True"
  let ?kept = "rev (foldl ?f [] (elements dir))"
  let ?names = "filter (\<lambda>e. e \<noteq> [] \<and> e \<noteq> ''.'') (elements path)"
  from abs have ne: "dir \<noteq> []"
    by (auto simp: IsAbs_def)
  from abs have abs': "IsAbs (dir @ CHR ''/'' # path)"
    by (cases dir) (auto simp: IsAbs_def)
  have dir: "dir = ''/'' @ strings_Join ?kept ''/''"
    using clean abs ne by (simp add: Clean_def)
  have "foldl ?f [] (elements (dir @ CHR ''/'' # path)) =
      rev ?names @ foldl ?f [] (elements dir)"
    by (simp add: elements_append_slash foldl_clean_elem_no_dotdot [OF nodd])
  then have join: "Join [dir, path] = ''/'' @ strings_Join (?kept @ ?names) ''/''"
    using ne abs' by (simp add: Join.simps Clean_def)
  have plain: "\<forall>n \<in> set ?names. CHR ''/'' \<notin> set n"
    using elements_no_slash [of _ path] by auto
  have kept_ne: "list_all (\<lambda>e. e \<noteq> []) ?kept"
    using foldl_clean_elem_non_empty [of "[]" True "elements dir"] by simp
  show ?thesis
  proof (cases "?names = []")
    case True
    with join dir show ?thesis
      by (simp add: within_def)
  next
    case names: False
    from nodd have rest: "''..'' \<notin> set (elements (strings_Join ?names ''/''))"
      by (simp add: elements_strings_Join [OF names plain])
    show ?thesis
    proof (cases "?kept = []")
      case True
      with dir have "dir = ''/''"
        by simp
      moreover from join True have "Join [dir, path] = ''/'' @ strings_Join ?names ''/''"
        by simp
      ultimately show ?thesis
        using rest by (simp add: within_def)
    next
      case False
      with kept_ne have "strings_Join ?kept ''/'' \<noteq> []"
        by (simp add: strings_Join_non_empty)
      with dir have "dir \<noteq> ''/''"
        by auto
      moreover have "Join [dir, path] = dir @ ''/'' @ strings_Join ?names ''/''"
        using join dir strings_Join_append [OF False names, of "''/''"] by simp
      ultimately show ?thesis
        using rest by (simp add: within_def)
    qed
  qed
qed

lemma path_of_calls_serve:
  "c \<in> set (calls (serve sys cfg r)) \<Longrightarrow> path_of c = Join [root cfg, URL_Path r]"
proof (cases "rejected cfg r")
  case True
  assume "c \<in> set (calls (serve sys cfg r))"
  with True show ?thesis
    by (simp add: serve_def rejected_def)
next
  case False
  assume "c \<in> set (calls (serve sys cfg r))"
  with False show ?thesis
    by (auto simp: serve_passed calls_serve_dir calls_serve_file
        split: sum.splits if_splits)
qed

subsection \<open>The root that resolvePath leaves\<close>

lemma clean_elem_kept:
  "list_all kept_elem out \<Longrightarrow> CHR ''/'' \<notin> set e \<Longrightarrow>
   list_all kept_elem (clean_elem True out e)"
  by (auto simp: clean_elem_def kept_elem_def split: list.splits)

lemma foldl_clean_elem_kept:
  "list_all kept_elem out \<Longrightarrow> \<forall>e \<in> set es. CHR ''/'' \<notin> set e \<Longrightarrow>
   list_all kept_elem (foldl (clean_elem True) out es)"
  by (induction es arbitrary: out) (simp_all add: clean_elem_kept)

lemma filter_kept: "list_all kept_elem ks \<Longrightarrow> filter (\<lambda>e. e \<noteq> [] \<and> e \<noteq> ''.'') ks = ks"
  by (induction ks) (auto simp: kept_elem_def)

lemma Clean_rooted_idem:
  assumes "IsAbs p"
  shows "IsAbs (Clean p) \<and> Clean (Clean p) = Clean p"
proof -
  let ?k = "rev (foldl (clean_elem True) [] (elements p))"
  from assms have ne: "p \<noteq> []"
    by (auto simp: IsAbs_def)
  with assms have c: "Clean p = CHR ''/'' # strings_Join ?k ''/''"
    by (simp add: Clean_def)
  have k: "list_all kept_elem ?k"
    using foldl_clean_elem_kept [of "[]" "elements p"] elements_no_slash [of _ p] by auto
  then have nodd: "''..'' \<notin> set ?k" and noslash: "\<forall>n \<in> set ?k. CHR ''/'' \<notin> set n"
    by (auto simp: list_all_iff kept_elem_def)
  have "foldl (clean_elem True) [] (elements (Clean p)) = rev ?k"
  proof (cases "?k = []")
    case True
    then have "Clean p = ''/''"
      using c by simp
    with True show ?thesis
      by (simp add: clean_elem_def)
  next
    case False
    then have "elements (Clean p) = [] # ?k"
      using c elements_strings_Join [OF False noslash] by simp
    then show ?thesis
      using foldl_clean_elem_no_dotdot [OF nodd, of True "[]"] filter_kept [OF k]
      by (simp add: clean_elem_def)
  qed
  with c show ?thesis
    by (simp add: Clean_def IsAbs_def)
qed

lemma IsAbs_Dir: "IsAbs a \<Longrightarrow> IsAbs (rev (dropWhile (\<lambda>c. c \<noteq> CHR ''/'') (rev a)))"
proof -
  assume "IsAbs a"
  then obtain b where a: "a = CHR ''/'' # b"
    by (cases a) (auto simp: IsAbs_def)
  have "rev (dropWhile (\<lambda>c. c \<noteq> CHR ''/'') (rev b @ [CHR ''/''])) =
      CHR ''/'' # rev (dropWhile (\<lambda>c. c \<noteq> CHR ''/'') (rev b))"
    by (simp add: dropWhile_append)
  with a show ?thesis
    by (simp add: IsAbs_def)
qed

text \<open>When \<^verbatim>\<open>resolvePath\<close> succeeds, the working directory (if it was asked for) being
  absolute and \<^verbatim>\<open>filepath.Abs\<close> not having failed, the root it leaves is a clean
  absolute path.\<close>

lemma resolvePath_root_clean:
  assumes ok: "resolvePath sys (flags f) = (None, cfg)"
    and wd: "\<forall>d. getwd sys = Inr d \<longrightarrow> IsAbs d"
    and abs: "snd (Abs sys (if f = [] then fst (os_Getwd sys) else f)) = None"
  shows "IsAbs (root cfg) \<and> Clean (root cfg) = root cfg"
proof -
  let ?arg = "if f = [] then fst (os_Getwd sys) else f"
  obtain a where a: "Abs sys ?arg = (a, None)"
    using abs by (cases "Abs sys ?arg") auto
  have "\<exists>p. IsAbs p \<and> a = Clean p"
  proof (cases "IsAbs ?arg")
    case True
    with a show ?thesis
      by (auto simp: Abs_def)
  next
    case False
    with a obtain d where d: "getwd sys = Inr d" and j: "a = Join [d, ?arg]"
      by (auto simp: Abs_def os_Getwd_def split: sum.splits)
    from wd d have "IsAbs d"
      by simp
    then have "d \<noteq> []" and "IsAbs (strings_Join [d, ?arg] ''/'')"
      by (cases d; simp add: IsAbs_def)+
    with j show ?thesis
      by (auto simp: Join.simps)
  qed
  then obtain p where p: "IsAbs p" "a = Clean p"
    by blast
  from ok a consider "root cfg = a" | "root cfg = Dir a"
    by (auto simp: resolvePath_def flags_def Let_def split: sum.splits if_splits)
  then show ?thesis
  proof cases
    case 1
    with p Clean_rooted_idem [of p] show ?thesis
      by simp
  next
    case 2
    from p Clean_rooted_idem [of p] have "IsAbs a"
      by simp
    then have "IsAbs (rev (dropWhile (\<lambda>c. c \<noteq> CHR ''/'') (rev a)))"
      by (rule IsAbs_Dir)
    from Clean_rooted_idem [OF this] 2 show ?thesis
      by (simp add: Dir_def)
  qed
qed

subsection \<open>Staying within the root\<close>

text \<open>
  C8, as the handler has it. Let the root be a clean absolute path, as \<^verbatim>\<open>resolvePath\<close>
  leaves it. For every request whose path has no \<^verbatim>\<open>..\<close> element, every path the
  handler stats, lists, opens or closes lies within the root. (The handler itself does
  not look for \<^verbatim>\<open>..\<close>: see the counterexample below.)
\<close>

theorem serve_stays_within_root:
  assumes "IsAbs (root cfg)" and "Clean (root cfg) = root cfg"
    and "''..'' \<notin> set (elements (URL_Path r))"
  shows "list_all (\<lambda>c. within (root cfg) (path_of c)) (calls (serve sys cfg r))"
  using Join_within [OF assms] path_of_calls_serve [of _ sys cfg r]
  by (simp add: list_all_iff)

text \<open>On the example site, \<^verbatim>\<open>/sub\<close> is examined and read at \<^verbatim>\<open>/srv/site/sub\<close>.\<close>

theorem serve_stays_within_root_witness:
  "IsAbs (root everything) \<and> Clean (root everything) = root everything \<and>
   ''..'' \<notin> set (elements (URL_Path (GET ''/sub''))) \<and>
   calls (serve site everything (GET ''/sub'')) =
     [Stat ''/srv/site/sub'', ReadDir ''/srv/site/sub''] \<and>
   list_all (\<lambda>c. within (root everything) (path_of c))
     (calls (serve site everything (GET ''/sub'')))"
proof -
  have a: "IsAbs (root everything)"
    by (simp add: everything_def IsAbs_def)
  have c: "Clean (root everything) = root everything"
    by (simp add: everything_def path_defs)
  have n: "''..'' \<notin> set (elements (URL_Path (GET ''/sub'')))"
    by (simp add: GET_def)
  have "calls (serve site everything (GET ''/sub'')) =
      [Stat ''/srv/site/sub'', ReadDir ''/srv/site/sub'']"
    by code_simp
  with a c n serve_stays_within_root [OF a c n, of site] show ?thesis
    by simp
qed

text \<open>C8, as it is stated, fails in serve-everything mode: the request path
  \<^verbatim>\<open>/../secret\<close> passes the access check, resolves to \<^verbatim>\<open>/srv/secret\<close> outside the root
  \<^verbatim>\<open>/srv/site\<close>, and that file is opened and served.\<close>

theorem serve_stays_within_root_counterexample:
  "\<not> rejected everything (GET ''/../secret'') \<and>
   calls (serve site everything (GET ''/../secret'')) =
     [Stat ''/srv/secret'', Open ''/srv/secret'', Close ''/srv/secret''] \<and>
   status (resp (serve site everything (GET ''/../secret''))) = 200 \<and>
   body (resp (serve site everything (GET ''/../secret''))) = ''top secret'' \<and>
   \<not> within (root everything) ''/srv/secret''"
proof -
  have "\<not> within (root everything) ''/srv/secret''"
    by (simp add: within_def everything_def)
  moreover have "\<not> rejected everything (GET ''/../secret'')"
    by (simp add: rejected_def everything_def)
  moreover have "calls (serve site everything (GET ''/../secret'')) =
      [Stat ''/srv/secret'', Open ''/srv/secret'', Close ''/srv/secret'']"
    by code_simp
  moreover have "status (resp (serve site everything (GET ''/../secret''))) = 200"
    by code_simp
  moreover have "body (resp (serve site everything (GET ''/../secret''))) = ''top secret''"
    by code_simp
  ultimately show ?thesis
    by simp
qed

subsection \<open>Path resolution at startup\<close>

text \<open>
  C3, as \<^verbatim>\<open>resolvePath\<close> has it. Let \<open>arg\<close> be the argument of \<^verbatim>\<open>-f\<close>, or what
  \<^verbatim>\<open>os.Getwd\<close> returns when the argument is empty (the working directory, when there
  is one).
  \<^item> If the stat of \<open>arg\<close> fails, that error is returned, and \<^verbatim>\<open>main\<close> prints it
    and exits with code 10.
  \<^item> If \<open>arg\<close> is a directory and its absolute path can be computed, \<^verbatim>\<open>root\<close> is that
    absolute path and \<^verbatim>\<open>file\<close> is \<^verbatim>\<open>*\<close>.
  \<^item> If \<open>arg\<close> is not a directory and its absolute path can be computed, \<^verbatim>\<open>root\<close> is
    the directory part of the absolute path and \<^verbatim>\<open>file\<close> is its base name.
  \<^item> If \<open>arg\<close> is not a directory and its absolute path cannot be computed, that
    error is returned, and \<^verbatim>\<open>main\<close> exits as before.
\<close>

theorem resolvePath_result:
  assumes "arg = (if f = [] then fst (os_Getwd sys) else f)"
  shows "(\<forall>wd. f = [] \<and> getwd sys = Inr wd \<longrightarrow> arg = wd) \<and>
     (\<forall>e. stat sys arg = Inl e \<longrightarrow>
        fst (resolvePath sys (flags f)) = Some (PathError ''stat'' arg e) \<and>
        main_resolvePath sys f = Exit 10 (''stat '' @ arg @ '': '' @ strerror e @ ''\<newline>'')) \<and>
     (\<forall>fi a. stat sys arg = Inr fi \<and> IsDir fi \<and> Abs sys arg = (a, None) \<longrightarrow>
        resolvePath sys (flags f) = (None, \<lparr>root = a, file = ''*''\<rparr>) \<and>
        main_resolvePath sys f = Resolved \<lparr>root = a, file = ''*''\<rparr>) \<and>
     (\<forall>fi a. stat sys arg = Inr fi \<and> \<not> IsDir fi \<and> Abs sys arg = (a, None) \<longrightarrow>
        resolvePath sys (flags f) = (None, \<lparr>root = Dir a, file = Base a\<rparr>) \<and>
        main_resolvePath sys f = Resolved \<lparr>root = Dir a, file = Base a\<rparr>) \<and>
     (\<forall>fi a err. stat sys arg = Inr fi \<and> \<not> IsDir fi \<and> Abs sys arg = (a, Some err) \<longrightarrow>
        fst (resolvePath sys (flags f)) = Some err \<and>
        main_resolvePath sys f = Exit 10 (Error err @ ''\<newline>''))"
  using assms
  by (auto simp: resolvePath_def main_resolvePath_def exit_def flags_def os_Stat_def
      os_Getwd_def Let_def split: sum.splits)

text \<open>On the example site: the file \<^verbatim>\<open>index.html\<close>, named absolutely or relative to
  the working directory, gives the root \<^verbatim>\<open>/srv/site\<close> and the file \<^verbatim>\<open>index.html\<close>; the
  empty argument gives the working directory and \<^verbatim>\<open>*\<close>; a path that does not exist
  gives the error of the stat.\<close>

theorem resolvePath_result_witness:
  "resolvePath site (flags ''/srv/site/index.html'') =
     (None, \<lparr>root = ''/srv/site'', file = ''index.html''\<rparr>) \<and>
   resolvePath site (flags ''index.html'') =
     (None, \<lparr>root = ''/srv/site'', file = ''index.html''\<rparr>) \<and>
   resolvePath site (flags []) = (None, \<lparr>root = ''/srv/site'', file = ''*''\<rparr>) \<and>
   fst (resolvePath site (flags ''/srv/nothing'')) =
     Some (PathError ''stat'' ''/srv/nothing'' ENOENT) \<and>
   main_resolvePath site ''/srv/nothing'' =
     Exit 10 ''stat /srv/nothing: no such file or directory\<newline>''"
proof -
  have g: "fst (os_Getwd site) = ''/srv/site''"
    by (simp add: os_Getwd_def site_def)
  have s1: "stat site ''/srv/site/index.html'' = Inr (regular ''index.html'' 1700000100)"
    and s2: "stat site ''index.html'' = Inr (regular ''index.html'' 1700000100)"
    and s3: "stat site ''/srv/site'' = Inr (directory ''site'' 1700000000)"
    and s4: "stat site ''/srv/nothing'' = Inl ENOENT"
    by (simp_all add: site_def site_stat_def)
  have d: "\<not> IsDir (regular ''index.html'' 1700000100)" "IsDir (directory ''site'' 1700000000)"
    by (simp_all add: regular_def directory_def IsDir_def)
  have a1: "Abs site ''/srv/site/index.html'' = (''/srv/site/index.html'', None)"
    and a2: "Abs site ''index.html'' = (''/srv/site/index.html'', None)"
    and a3: "Abs site ''/srv/site'' = (''/srv/site'', None)"
    by (simp_all add: Abs_def os_Getwd_def site_def Join.simps path_defs)
  have b: "Dir ''/srv/site/index.html'' = ''/srv/site''"
    "Base ''/srv/site/index.html'' = ''index.html''"
    by (simp_all add: Dir_def Base_def path_defs)
  from resolvePath_result [of "''/srv/site/index.html''" "''/srv/site/index.html''" site]
    resolvePath_result [of "''index.html''" "''index.html''" site]
    resolvePath_result [of "''/srv/site''" "[]" site]
    resolvePath_result [of "''/srv/nothing''" "''/srv/nothing''" site]
  show ?thesis
    using g s1 s2 s3 s4 d a1 a2 a3 b by simp
qed

text \<open>C3, as it is stated, fails when the absolute path cannot be computed: with no
  working directory to be had, the relative argument \<^verbatim>\<open>index.html\<close> is found to be a
  regular file, and \<^verbatim>\<open>resolvePath\<close> returns the error of \<^verbatim>\<open>filepath.Abs\<close>; \<^verbatim>\<open>root\<close>
  and \<^verbatim>\<open>file\<close> stay as they were.\<close>

theorem resolvePath_result_counterexample:
  "stat (site\<lparr>getwd := Inl ENOENT\<rparr>) ''index.html'' = Inr (regular ''index.html'' 1700000100) \<and>
   IsDir (regular ''index.html'' 1700000100) = False \<and>
   resolvePath (site\<lparr>getwd := Inl ENOENT\<rparr>) (flags ''index.html'') =
     (Some (SyscallError ''getwd'' ENOENT), \<lparr>root = ''index.html'', file = []\<rparr>) \<and>
   main_resolvePath (site\<lparr>getwd := Inl ENOENT\<rparr>) ''index.html'' =
     Exit 10 ''getwd: no such file or directory\<newline>''"
  by (simp add: resolvePath_def main_resolvePath_def exit_def flags_def os_Stat_def
      os_Getwd_def Abs_def IsAbs_def site_def site_stat_def regular_def IsDir_def)

end
